theory Spec2Isabelle
  imports Main "HOL-Library.Word"
begin

section \<open>The workspace blob resolver\<close>

text \<open>
  A shallow embedding of \<^verbatim>\<open>WorkspaceBlobResolver\<close>
  (\<^verbatim>\<open>packages/backend/server/src/modules/workspaces/resolvers/blob.ts\<close>).
  The resolver methods \<^verbatim>\<open>blobs\<close>, \<^verbatim>\<open>blobsSize\<close>, \<^verbatim>\<open>setBlob\<close> and
  \<^verbatim>\<open>deleteBlob\<close> are modelled; the deprecated queries are not.

  JavaScript numbers that count bytes are modelled as integers. The code computes on IEEE
  doubles, and the two agree as long as the operands and the sum of
  \<^verbatim>\<open>size + recvSize\<close> are safe integers, of magnitude below \<open>2 ^ 53\<close>: beyond that
  a double sum is rounded. Every theorem below that depends on what the sum and the
  comparisons compute carries this bound as a hypothesis. \<^verbatim>\<open>NaN\<close> is not modelled.
  The calls to \<^verbatim>\<open>this.logger.log\<close> are left out: they change nothing the resolver
  returns or stores.
\<close>

subsection \<open>Values and errors\<close>

text \<open>A \<^verbatim>\<open>Uint8Array\<close> chunk, and a \<^verbatim>\<open>Buffer\<close>, is a list of bytes.\<close>

type_synonym chunk = "8 word list"

datatype HttpStatus = FORBIDDEN | PAYLOAD_TOO_LARGE

text \<open>
  What a method throws: a \<^verbatim>\<open>GraphQLError\<close> with its message and the status in its
  extensions, the exception of the permission service, or whatever the upload stream
  passed to its \<^verbatim>\<open>'error'\<close> listeners.
\<close>

datatype error =
    GraphQLError string HttpStatus
  | ForbiddenException
  | StreamError string

text \<open>What a resolver method returns to GraphQL.\<close>

datatype jsval = JString string | JNumber int | JBool bool | JArray "jsval list"

subsection \<open>Collaborators\<close>

text \<open>
  Modelled from the spec: the \<^verbatim>\<open>Permission\<close> enum of \<^verbatim>\<open>../types\<close> is not part of the
  sources at hand; the spec speaks of the caller's permission level, read versus write.
\<close>

datatype Permission = Read | Write

datatype FeatureType = UnlimitedWorkspace

text \<open>
  The object \<^verbatim>\<open>{ quota, size, limit }\<close> that \<^verbatim>\<open>getWorkspaceUsage\<close> resolves to.
  \<open>quota = None\<close> stands for \<^verbatim>\<open>undefined\<close> or \<^verbatim>\<open>null\<close>.
\<close>

record WorkspaceUsage =
  quota :: "int option"
  size' :: int
  limit :: int

text \<open>
  The injected services, each as the function the resolver calls:
  \<^verbatim>\<open>permissions.tryCheckWorkspace\<close>, \<^verbatim>\<open>quota.getWorkspaceUsage\<close> and
  \<^verbatim>\<open>feature.hasWorkspaceFeature\<close>. Their implementations are parameters.
\<close>

record services =
  tryCheckWorkspace :: "string \<Rightarrow> string \<Rightarrow> Permission \<Rightarrow> bool"
  getWorkspaceUsage :: "string \<Rightarrow> WorkspaceUsage"
  hasWorkspaceFeature :: "string \<Rightarrow> FeatureType \<Rightarrow> bool"

text \<open>
  Modelled from the spec: \<^verbatim>\<open>PermissionService.checkWorkspace\<close> is not part of the sources
  at hand. The authorization collaborator is
  \<^verbatim>\<open>checkPermission(tenantId, userId, requiredLevel) -> void | fails with Forbidden\<close>;
  a call that passes no level asks for the read level.
\<close>

definition checkWorkspace ::
  "services \<Rightarrow> string \<Rightarrow> string \<Rightarrow> Permission option \<Rightarrow> error + unit" where
  "checkWorkspace sv ws user permission =
     (if tryCheckWorkspace sv ws user (case permission of None \<Rightarrow> Read | Some p \<Rightarrow> p)
      then Inr () else Inl ForbiddenException)"

subsection \<open>The durable store and the cache\<close>

text \<open>The calls that reach \<^verbatim>\<open>WorkspaceBlobStorage\<close>, in the order they are made.\<close>

datatype store_op =
    OpList string
  | OpTotalSize string
  | OpPut string string
  | OpDelete string string

text \<open>
  The world outside the resolver: the blobs of the durable store keyed by workspace and
  name, the calls made to the store, and the cache invalidations issued, each with its tags
  and the workspace it is keyed by.
\<close>

record world =
  storage :: "((string \<times> string) \<times> chunk) list"
  trace :: "store_op list"
  invalidated :: "(string list \<times> string) list"

text \<open>
  Modelled from the spec: \<^verbatim>\<open>WorkspaceBlobStorage\<close> is not part of the sources at hand.
  The durable blob store offers \<^verbatim>\<open>put(tenantId, name, bytes)\<close>, which overwrites a record
  with the same key (last write wins), \<^verbatim>\<open>delete(tenantId, name)\<close>, which removes it,
  \<^verbatim>\<open>list(tenantId)\<close>, a sequence of \<^verbatim>\<open>{key, size}\<close>, and \<^verbatim>\<open>totalSize(tenantId)\<close>.
  Transport failures of the store are not modelled.
\<close>

definition storage_put :: "string \<Rightarrow> string \<Rightarrow> chunk \<Rightarrow> world \<Rightarrow> world" where
  "storage_put ws name buffer w =
     w\<lparr>storage := ((ws, name), buffer) # filter (\<lambda>(k, v). k \<noteq> (ws, name)) (storage w),
       trace := trace w @ [OpPut ws name]\<rparr>"

definition storage_delete :: "string \<Rightarrow> string \<Rightarrow> world \<Rightarrow> world" where
  "storage_delete ws name w =
     w\<lparr>storage := filter (\<lambda>(k, v). k \<noteq> (ws, name)) (storage w),
       trace := trace w @ [OpDelete ws name]\<rparr>"

definition storage_list :: "string \<Rightarrow> world \<Rightarrow> (string \<times> int) list \<times> world" where
  "storage_list ws w =
     (map (\<lambda>((t, k), v). (k, int (length v))) (filter (\<lambda>((t, k), v). t = ws) (storage w)),
      w\<lparr>trace := trace w @ [OpList ws]\<rparr>)"

definition storage_totalSize :: "string \<Rightarrow> world \<Rightarrow> int \<times> world" where
  "storage_totalSize ws w =
     (sum_list (map (\<lambda>((t, k), v). int (length v)) (filter (\<lambda>((t, k), v). t = ws) (storage w))),
      w\<lparr>trace := trace w @ [OpTotalSize ws]\<rparr>)"

text \<open>
  Modelled from the spec: the \<^verbatim>\<open>PreventCache\<close> decorator of \<^verbatim>\<open>fundamentals\<close> is not part
  of the sources at hand. On success of the decorated mutation it triggers
  \<^verbatim>\<open>invalidate({tags, args: {tenantId}})\<close>; on any failure path no invalidation occurs.
\<close>

definition PreventCache ::
  "string list \<Rightarrow> string \<Rightarrow> (error + jsval) option \<Rightarrow> world \<Rightarrow> world" where
  "PreventCache tags workspaceId res w =
     (case res of
        Some (Inr v) \<Rightarrow> w\<lparr>invalidated := invalidated w @ [(tags, workspaceId)]\<rparr>
      | _ \<Rightarrow> w)"

subsection \<open>The upload stream and the promise\<close>

text \<open>
  The events the upload's read stream emits to its listeners, in order, as long as nobody
  stops it: \<^verbatim>\<open>'data'\<close> with a chunk, \<^verbatim>\<open>'error'\<close> with an error, \<^verbatim>\<open>'end'\<close>.
\<close>

datatype stream_event = OnData chunk | OnError error | OnEnd

record FileUpload =
  filename :: string
  createReadStream :: "stream_event list"

text \<open>A promise settles once: \<^verbatim>\<open>resolve\<close> and \<^verbatim>\<open>reject\<close> on a settled promise do nothing.\<close>

datatype 'a promise = Pending | Fulfilled 'a | Rejected error

definition resolve :: "'a \<Rightarrow> 'a promise \<Rightarrow> 'a promise" where
  "resolve v p = (case p of Pending \<Rightarrow> Fulfilled v | _ \<Rightarrow> p)"

definition reject :: "error \<Rightarrow> 'a promise \<Rightarrow> 'a promise" where
  "reject e p = (case p of Pending \<Rightarrow> Rejected e | _ \<Rightarrow> p)"

subsection \<open>checkExceeded\<close>

text \<open>
  The closure \<^verbatim>\<open>checkExceeded\<close> of \<^verbatim>\<open>setBlob\<close>, with the variables it captures
  (\<^verbatim>\<open>quota\<close>, \<^verbatim>\<open>size\<close>, \<^verbatim>\<open>limit\<close>, \<^verbatim>\<open>unlimited\<close>) as arguments. \<^verbatim>\<open>!quota\<close> holds of
  \<^verbatim>\<open>undefined\<close>, \<^verbatim>\<open>null\<close> and \<^verbatim>\<open>0\<close>.
\<close>

definition checkExceeded :: "WorkspaceUsage \<Rightarrow> bool \<Rightarrow> int \<Rightarrow> error + bool" where
  "checkExceeded u unlimited recvSize =
     (case quota u of
        None \<Rightarrow> Inl (GraphQLError ''cannot find user quota'' FORBIDDEN)
      | Some q \<Rightarrow>
          if q = 0 then Inl (GraphQLError ''cannot find user quota'' FORBIDDEN)
          else
            let total = size' u + recvSize in
            if total > q \<and> \<not> unlimited then Inr True
            else if recvSize > limit u then Inr True
            else Inr False)"

text \<open>
  \<^verbatim>\<open>Number.isSafeInteger\<close>: the integers that a double holds exactly and whose
  neighbours it holds exactly too. Where \<^verbatim>\<open>size\<close>, \<^verbatim>\<open>recvSize\<close> and their sum are
  safe, the double sum of the code is the integer sum of \<open>checkExceeded\<close>.
\<close>

definition safe_integer :: "int \<Rightarrow> bool" where
  "safe_integer x = (- (2 ^ 53) < x \<and> x < 2 ^ 53)"

text \<open>
  The numbers of one call of \<^verbatim>\<open>checkExceeded\<close> are safe: the quota limit \<open>q\<close>, the
  used bytes, the per-blob limit, the received size and the sum the call computes.
\<close>

definition safe_usage :: "WorkspaceUsage \<Rightarrow> int \<Rightarrow> int \<Rightarrow> bool" where
  "safe_usage u q recvSize =
     (safe_integer q \<and> safe_integer (size' u) \<and> safe_integer (limit u)
      \<and> safe_integer recvSize \<and> safe_integer (size' u + recvSize))"

subsection \<open>The listeners of setBlob\<close>

text \<open>
  The state the three listeners share: the array \<^verbatim>\<open>chunks\<close>, the promise whose
  \<^verbatim>\<open>resolve\<close> and \<^verbatim>\<open>reject\<close> they hold, and the exceptions that left a listener towards the
  emitter (a \<^verbatim>\<open>throw\<close> inside a listener does not settle the promise).
\<close>

record listener_state =
  chunks :: "chunk list"
  settled :: "chunk promise"
  escaped :: "error list"

text \<open>\<^verbatim>\<open>chunks.reduce((acc, cur) => acc + cur.length, 0)\<close>\<close>

definition bufferSize :: "chunk list \<Rightarrow> int" where
  "bufferSize cs = foldl (\<lambda>acc cur. acc + int (length cur)) 0 cs"

definition on_data :: "WorkspaceUsage \<Rightarrow> bool \<Rightarrow> chunk \<Rightarrow> listener_state \<Rightarrow> listener_state" where
  "on_data u unlimited chunk st =
     (let st1 = st\<lparr>chunks := chunks st @ [chunk]\<rparr> in
      case checkExceeded u unlimited (bufferSize (chunks st1)) of
        Inl e \<Rightarrow> st1\<lparr>escaped := escaped st1 @ [e]\<rparr>
      | Inr True \<Rightarrow>
          st1\<lparr>settled :=
            reject (GraphQLError ''storage or blob size limit exceeded'' PAYLOAD_TOO_LARGE)
              (settled st1)\<rparr>
      | Inr False \<Rightarrow> st1)"

definition on_end :: "WorkspaceUsage \<Rightarrow> bool \<Rightarrow> listener_state \<Rightarrow> listener_state" where
  "on_end u unlimited st =
     (let buffer = concat (chunks st) in
      case checkExceeded u unlimited (int (length buffer)) of
        Inl e \<Rightarrow> st\<lparr>escaped := escaped st @ [e]\<rparr>
      | Inr True \<Rightarrow>
          st\<lparr>settled := reject (GraphQLError ''storage limit exceeded'' PAYLOAD_TOO_LARGE) (settled st)\<rparr>
      | Inr False \<Rightarrow> st\<lparr>settled := resolve buffer (settled st)\<rparr>)"

fun dispatch :: "WorkspaceUsage \<Rightarrow> bool \<Rightarrow> stream_event \<Rightarrow> listener_state \<Rightarrow> listener_state" where
  "dispatch u unlimited (OnData chunk) st = on_data u unlimited chunk st"
| "dispatch u unlimited (OnError e) st = st\<lparr>settled := reject e (settled st)\<rparr>"
| "dispatch u unlimited OnEnd st = on_end u unlimited st"

text \<open>
  The stream delivers its events one after the other. No listener is ever removed and the
  stream is never paused or destroyed, so every event reaches its listener.
\<close>

fun run_stream :: "WorkspaceUsage \<Rightarrow> bool \<Rightarrow> stream_event list \<Rightarrow> listener_state \<Rightarrow> listener_state" where
  "run_stream u unlimited [] st = st"
| "run_stream u unlimited (ev # evs) st = run_stream u unlimited evs (dispatch u unlimited ev st)"

subsection \<open>setBlob\<close>

text \<open>
  What one call of \<^verbatim>\<open>setBlob\<close> leaves behind: what the call settles with (\<open>None\<close> when the
  awaited promise stays pending for ever), the world after it, and the listeners' state
  (\<open>None\<close> when \<^verbatim>\<open>blob.createReadStream()\<close> was never called).
\<close>

record outcome =
  result :: "(error + jsval) option"
  after :: world
  listeners :: "listener_state option"

definition setBlob :: "services \<Rightarrow> world \<Rightarrow> string \<Rightarrow> string \<Rightarrow> FileUpload \<Rightarrow> outcome" where
  "setBlob sv w user workspaceId blob =
     (case checkWorkspace sv workspaceId user (Some Write) of
        Inl e \<Rightarrow> \<lparr>result = Some (Inl e), after = w, listeners = None\<rparr>
      | Inr _ \<Rightarrow>
          let u = getWorkspaceUsage sv workspaceId;
              unlimited = hasWorkspaceFeature sv workspaceId UnlimitedWorkspace
          in
          (case checkExceeded u unlimited 0 of
             Inl e \<Rightarrow> \<lparr>result = Some (Inl e), after = w, listeners = None\<rparr>
           | Inr True \<Rightarrow>
               \<lparr>result = Some (Inl (GraphQLError ''storage or blob size limit exceeded'' PAYLOAD_TOO_LARGE)),
                after = w, listeners = None\<rparr>
           | Inr False \<Rightarrow>
              let st = run_stream u unlimited (createReadStream blob)
                         \<lparr>chunks = [], settled = Pending, escaped = []\<rparr>
              in
              (case settled st of
                 Pending \<Rightarrow> \<lparr>result = None, after = w, listeners = Some st\<rparr>
               | Rejected e \<Rightarrow> \<lparr>result = Some (Inl e), after = w, listeners = Some st\<rparr>
               | Fulfilled buffer \<Rightarrow>
                   \<lparr>result = Some (Inr (JString (filename blob))),
                    after = storage_put workspaceId (filename blob) buffer w,
                    listeners = Some st\<rparr>)))"

text \<open>The mutation as GraphQL runs it, under \<^verbatim>\<open>@PreventCache(['blobs'], ['workspaceId'])\<close>.\<close>

definition setBlob_mutation :: "services \<Rightarrow> world \<Rightarrow> string \<Rightarrow> string \<Rightarrow> FileUpload \<Rightarrow> outcome" where
  "setBlob_mutation sv w user workspaceId blob =
     (let out = setBlob sv w user workspaceId blob in
      out\<lparr>after := PreventCache [''blobs''] workspaceId (result out) (after out)\<rparr>)"

subsection \<open>blobs, blobsSize, deleteBlob\<close>

definition blobs :: "services \<Rightarrow> world \<Rightarrow> string \<Rightarrow> string \<Rightarrow> (error + jsval) \<times> world" where
  "blobs sv w user workspace_id =
     (case checkWorkspace sv workspace_id user None of
        Inl e \<Rightarrow> (Inl e, w)
      | Inr _ \<Rightarrow>
          let (items, w') = storage_list workspace_id w in
          (Inr (JArray (map (\<lambda>(key, sz). JString key) items)), w'))"

definition blobsSize :: "services \<Rightarrow> world \<Rightarrow> string \<Rightarrow> (error + jsval) \<times> world" where
  "blobsSize sv w workspace_id =
     (let (total, w') = storage_totalSize workspace_id w in (Inr (JNumber total), w'))"

definition deleteBlob :: "services \<Rightarrow> world \<Rightarrow> string \<Rightarrow> string \<Rightarrow> string \<Rightarrow> (error + jsval) \<times> world" where
  "deleteBlob sv w user workspaceId name =
     (case checkWorkspace sv workspaceId user None of
        Inl e \<Rightarrow> (Inl e, w)
      | Inr _ \<Rightarrow> (Inr (JBool True), storage_delete workspaceId name w))"

text \<open>The mutation as GraphQL runs it, under \<^verbatim>\<open>@PreventCache(['blobs'], ['workspaceId'])\<close>.\<close>

definition deleteBlob_mutation ::
  "services \<Rightarrow> world \<Rightarrow> string \<Rightarrow> string \<Rightarrow> string \<Rightarrow> (error + jsval) \<times> world" where
  "deleteBlob_mutation sv w user workspaceId name =
     (let (res, w') = deleteBlob sv w user workspaceId name in
      (res, PreventCache [''blobs''] workspaceId (Some res) w'))"

subsection \<open>A running counter instead of re-summing\<close>

text \<open>
  The design note of the specification, beside the listeners above: a single running
  counter, updated incrementally per chunk, in place of re-summing the whole buffer on each
  check. The state is the counter \<^verbatim>\<open>runningSize\<close> and the listeners' state.
\<close>

definition on_data_counter ::
  "WorkspaceUsage \<Rightarrow> bool \<Rightarrow> chunk \<Rightarrow> int \<times> listener_state \<Rightarrow> int \<times> listener_state" where
  "on_data_counter u unlimited chunk ns =
     (let runningSize = fst ns + int (length chunk);
          st1 = (snd ns)\<lparr>chunks := chunks (snd ns) @ [chunk]\<rparr>
      in
      case checkExceeded u unlimited runningSize of
        Inl e \<Rightarrow> (runningSize, st1\<lparr>escaped := escaped st1 @ [e]\<rparr>)
      | Inr True \<Rightarrow>
          (runningSize,
           st1\<lparr>settled :=
             reject (GraphQLError ''storage or blob size limit exceeded'' PAYLOAD_TOO_LARGE)
               (settled st1)\<rparr>)
      | Inr False \<Rightarrow> (runningSize, st1))"

definition on_end_counter ::
  "WorkspaceUsage \<Rightarrow> bool \<Rightarrow> int \<times> listener_state \<Rightarrow> int \<times> listener_state" where
  "on_end_counter u unlimited ns =
     (let st = snd ns in
      case checkExceeded u unlimited (fst ns) of
        Inl e \<Rightarrow> (fst ns, st\<lparr>escaped := escaped st @ [e]\<rparr>)
      | Inr True \<Rightarrow>
          (fst ns,
           st\<lparr>settled := reject (GraphQLError ''storage limit exceeded'' PAYLOAD_TOO_LARGE) (settled st)\<rparr>)
      | Inr False \<Rightarrow> (fst ns, st\<lparr>settled := resolve (concat (chunks st)) (settled st)\<rparr>))"

fun dispatch_counter ::
  "WorkspaceUsage \<Rightarrow> bool \<Rightarrow> stream_event \<Rightarrow> int \<times> listener_state \<Rightarrow> int \<times> listener_state" where
  "dispatch_counter u unlimited (OnData chunk) ns = on_data_counter u unlimited chunk ns"
| "dispatch_counter u unlimited (OnError e) ns = (fst ns, (snd ns)\<lparr>settled := reject e (settled (snd ns))\<rparr>)"
| "dispatch_counter u unlimited OnEnd ns = on_end_counter u unlimited ns"

fun run_stream_counter ::
  "WorkspaceUsage \<Rightarrow> bool \<Rightarrow> stream_event list \<Rightarrow> int \<times> listener_state \<Rightarrow> int \<times> listener_state" where
  "run_stream_counter u unlimited [] ns = ns"
| "run_stream_counter u unlimited (ev # evs) ns =
     run_stream_counter u unlimited evs (dispatch_counter u unlimited ev ns)"

definition setBlob_counter :: "services \<Rightarrow> world \<Rightarrow> string \<Rightarrow> string \<Rightarrow> FileUpload \<Rightarrow> outcome" where
  "setBlob_counter sv w user workspaceId blob =
     (case checkWorkspace sv workspaceId user (Some Write) of
        Inl e \<Rightarrow> \<lparr>result = Some (Inl e), after = w, listeners = None\<rparr>
      | Inr _ \<Rightarrow>
          let u = getWorkspaceUsage sv workspaceId;
              unlimited = hasWorkspaceFeature sv workspaceId UnlimitedWorkspace
          in
          (case checkExceeded u unlimited 0 of
             Inl e \<Rightarrow> \<lparr>result = Some (Inl e), after = w, listeners = None\<rparr>
           | Inr True \<Rightarrow>
               \<lparr>result = Some (Inl (GraphQLError ''storage or blob size limit exceeded'' PAYLOAD_TOO_LARGE)),
                after = w, listeners = None\<rparr>
           | Inr False \<Rightarrow>
              let st = snd (run_stream_counter u unlimited (createReadStream blob)
                         (0, \<lparr>chunks = [], settled = Pending, escaped = []\<rparr>))
              in
              (case settled st of
                 Pending \<Rightarrow> \<lparr>result = None, after = w, listeners = Some st\<rparr>
               | Rejected e \<Rightarrow> \<lparr>result = Some (Inl e), after = w, listeners = Some st\<rparr>
               | Fulfilled buffer \<Rightarrow>
                   \<lparr>result = Some (Inr (JString (filename blob))),
                    after = storage_put workspaceId (filename blob) buffer w,
                    listeners = Some st\<rparr>)))"

subsection \<open>Concrete inputs\<close>

text \<open>
  Services that grant exactly the permission levels listed, and answer every workspace with
  the same usage and the same feature flag.
\<close>

definition fixed_services :: "Permission list \<Rightarrow> WorkspaceUsage \<Rightarrow> bool \<Rightarrow> services" where
  "fixed_services granted u unlimited =
     \<lparr>tryCheckWorkspace = (\<lambda>ws user p. p \<in> set granted),
      getWorkspaceUsage = (\<lambda>ws. u),
      hasWorkspaceFeature = (\<lambda>ws f. unlimited)\<rparr>"

definition usage :: "int option \<Rightarrow> int \<Rightarrow> int \<Rightarrow> WorkspaceUsage" where
  "usage q s l = \<lparr>quota = q, size' = s, limit = l\<rparr>"

definition empty_world :: world where
  "empty_world = \<lparr>storage = [], trace = [], invalidated = []\<rparr>"

text \<open>An upload whose stream delivers the given chunks and then ends.\<close>

definition upload :: "string \<Rightarrow> chunk list \<Rightarrow> FileUpload" where
  "upload name cs = \<lparr>filename = name, createReadStream = map OnData cs @ [OnEnd]\<rparr>"

text \<open>The chunks among the events of a stream.\<close>

fun data_chunks :: "stream_event list \<Rightarrow> chunk list" where
  "data_chunks [] = []"
| "data_chunks (OnData c # evs) = c # data_chunks evs"
| "data_chunks (ev # evs) = data_chunks evs"

section \<open>Properties\<close>

subsection \<open>The size of the buffer and the guard\<close>

lemma foldl_bufferSize: "foldl (\<lambda>acc cur. acc + int (length cur)) a cs = a + int (length (concat cs))"
  by (induction cs arbitrary: a) simp_all

lemma bufferSize_concat: "bufferSize cs = int (length (concat cs))"
  by (simp add: bufferSize_def foldl_bufferSize)

lemma bufferSize_snoc: "bufferSize (cs @ [c]) = bufferSize cs + int (length c)"
  by (simp add: bufferSize_def)

lemma checkExceeded_truthy:
  "quota u = Some q \<Longrightarrow> q \<noteq> 0 \<Longrightarrow>
   checkExceeded u unlimited r = Inr ((size' u + r > q \<and> \<not> unlimited) \<or> r > limit u)"
  by (simp add: checkExceeded_def Let_def)

lemma checkExceeded_falsy:
  "quota u = None \<or> quota u = Some 0 \<Longrightarrow>
   checkExceeded u unlimited r = Inl (GraphQLError ''cannot find user quota'' FORBIDDEN)"
  by (auto simp: checkExceeded_def)

lemma checkExceeded_mono:
  "checkExceeded u unlimited r = Inr True \<Longrightarrow> r \<le> r' \<Longrightarrow> checkExceeded u unlimited r' = Inr True"
  by (auto simp: checkExceeded_def Let_def split: option.splits if_splits)

lemma checkExceeded_throws_any:
  "checkExceeded u unlimited r = Inl e \<Longrightarrow> checkExceeded u unlimited r' = Inl e"
  by (auto simp: checkExceeded_def Let_def split: option.splits if_splits)

lemma checkExceeded_returns_any:
  "checkExceeded u unlimited r = Inr b \<Longrightarrow> \<exists>b'. checkExceeded u unlimited r' = Inr b'"
  by (auto simp: checkExceeded_def Let_def split: option.splits if_splits)

subsection \<open>The listeners\<close>

text \<open>A settled promise stays as it is, whatever the stream emits afterwards.\<close>

lemma dispatch_settled:
  "settled st \<noteq> Pending \<Longrightarrow> settled (dispatch u unlimited ev st) = settled st"
  by (cases ev; cases "settled st")
     (auto simp: on_data_def on_end_def reject_def resolve_def Let_def split: sum.splits bool.splits)

lemma run_stream_settled:
  "settled st \<noteq> Pending \<Longrightarrow> settled (run_stream u unlimited evs st) = settled st"
  by (induction evs arbitrary: st) (simp_all add: dispatch_settled)

text \<open>Every chunk the stream emits is pushed to \<^verbatim>\<open>chunks\<close>.\<close>

lemma dispatch_chunks:
  "chunks (dispatch u unlimited ev st) = chunks st @ data_chunks [ev]"
  by (cases ev) (auto simp: on_data_def on_end_def Let_def split: sum.splits bool.splits)

lemma data_chunks_Cons: "data_chunks (ev # evs) = data_chunks [ev] @ data_chunks evs"
  by (cases ev) simp_all

lemma run_stream_chunks:
  "chunks (run_stream u unlimited evs st) = chunks st @ data_chunks evs"
proof (induction evs arbitrary: st)
  case Nil
  show ?case by simp
next
  case (Cons ev evs)
  show ?case
    using Cons.IH [of "dispatch u unlimited ev st"] data_chunks_Cons [of ev evs]
    by (simp add: dispatch_chunks)
qed


text \<open>
  A stream that delivers a payload completely: the promise is rejected by the listener of
  the first chunk whose cumulative size trips the guard, and then the whole payload trips
  it too, since the guard is monotone in the size.
\<close>

lemma run_stream_payload:
  assumes "settled st = Pending" and "cs \<noteq> []"
    and "checkExceeded u unlimited 0 = Inr b0"
  shows "settled (run_stream u unlimited (map OnData cs @ [OnEnd]) st) =
     (if checkExceeded u unlimited (int (length (concat (chunks st @ cs)))) = Inr True
      then Rejected (GraphQLError ''storage or blob size limit exceeded'' PAYLOAD_TOO_LARGE)
      else Fulfilled (concat (chunks st @ cs)))"
  using assms(1,2)
proof (induction cs arbitrary: st)
  case Nil
  then show ?case by simp
next
  case (Cons c cs)
  let ?st1 = "on_data u unlimited c st"
  let ?n1 = "int (length (concat (chunks st @ [c])))"
  obtain b where b: "checkExceeded u unlimited ?n1 = Inr b"
    using checkExceeded_returns_any [OF assms(3)] by blast
  have ch1: "chunks ?st1 = chunks st @ [c]"
    using b by (simp add: on_data_def Let_def bufferSize_concat split: bool.splits)
  show ?case
  proof (cases b)
    case True
    have s1: "settled ?st1 = Rejected (GraphQLError ''storage or blob size limit exceeded'' PAYLOAD_TOO_LARGE)"
      using b True Cons.prems(1) by (simp add: on_data_def Let_def bufferSize_concat reject_def)
    have "checkExceeded u unlimited (int (length (concat (chunks st @ c # cs)))) = Inr True"
      using checkExceeded_mono [of u unlimited ?n1 "int (length (concat (chunks st @ c # cs)))"] b True
      by simp
    then show ?thesis
      using s1 run_stream_settled [of ?st1 u unlimited "map OnData cs @ [OnEnd]"] by simp
  next
    case False
    have s1: "settled ?st1 = Pending"
      using b False Cons.prems(1) by (simp add: on_data_def Let_def bufferSize_concat)
    show ?thesis
    proof (cases "cs = []")
      case True
      then show ?thesis
        using b False s1 ch1 by (simp add: on_end_def Let_def resolve_def)
    next
      case ne: False
      show ?thesis using Cons.IH [OF s1 ne] ch1 by simp
    qed
  qed
qed

subsection \<open>setBlob on a complete upload\<close>

lemma setBlob_upload:
  "setBlob sv w user ws (upload name cs) =
     (case checkWorkspace sv ws user (Some Write) of
        Inl e \<Rightarrow> \<lparr>result = Some (Inl e), after = w, listeners = None\<rparr>
      | Inr _ \<Rightarrow>
         (case checkExceeded (getWorkspaceUsage sv ws) (hasWorkspaceFeature sv ws UnlimitedWorkspace)
                 (int (length (concat cs))) of
            Inl e \<Rightarrow> \<lparr>result = Some (Inl e), after = w, listeners = None\<rparr>
          | Inr True \<Rightarrow>
              \<lparr>result = Some (Inl (GraphQLError ''storage or blob size limit exceeded'' PAYLOAD_TOO_LARGE)),
               after = w,
               listeners = listeners (setBlob sv w user ws (upload name cs))\<rparr>
          | Inr False \<Rightarrow>
              \<lparr>result = Some (Inr (JString name)),
               after = storage_put ws name (concat cs) w,
               listeners = listeners (setBlob sv w user ws (upload name cs))\<rparr>))"
proof (cases "checkWorkspace sv ws user (Some Write)")
  case (Inl e)
  then show ?thesis by (simp add: setBlob_def)
next
  case (Inr x)
  let ?u = "getWorkspaceUsage sv ws"
  let ?un = "hasWorkspaceFeature sv ws UnlimitedWorkspace"
  let ?n = "int (length (concat cs))"
  show ?thesis
  proof (cases "checkExceeded ?u ?un 0")
    case (Inl e)
    then show ?thesis
      using Inr checkExceeded_throws_any [of ?u ?un 0 e ?n] by (simp add: setBlob_def)
  next
    case b0: (Inr b0)
    obtain b where b: "checkExceeded ?u ?un ?n = Inr b"
      using checkExceeded_returns_any [OF b0] by blast
    show ?thesis
    proof (cases b0)
      case True
      have "checkExceeded ?u ?un ?n = Inr True"
        using checkExceeded_mono [of ?u ?un 0 ?n] b0 True by simp
      then show ?thesis using Inr b0 True by (simp add: setBlob_def)
    next
      case False
      show ?thesis
      proof (cases "cs = []")
        case True
        then show ?thesis
          using Inr b0 False
          by (simp add: setBlob_def upload_def on_end_def resolve_def)
      next
        case ne: False
        have "settled (run_stream ?u ?un (map OnData cs @ [OnEnd]) \<lparr>chunks = [], settled = Pending, escaped = []\<rparr>) =
              (if checkExceeded ?u ?un ?n = Inr True
               then Rejected (GraphQLError ''storage or blob size limit exceeded'' PAYLOAD_TOO_LARGE)
               else Fulfilled (concat cs))"
          using run_stream_payload [of "\<lparr>chunks = [], settled = Pending, escaped = []\<rparr>" cs ?u ?un b0] ne b0
          by simp
        then show ?thesis
          using Inr b0 False b
          by (cases b) (simp_all add: setBlob_def upload_def Let_def)
      qed
    qed
  qed
qed


lemma setBlob_upload_result:
  "result (setBlob sv w user ws (upload name cs)) =
     (case checkWorkspace sv ws user (Some Write) of
        Inl e \<Rightarrow> Some (Inl e)
      | Inr _ \<Rightarrow>
         (case checkExceeded (getWorkspaceUsage sv ws) (hasWorkspaceFeature sv ws UnlimitedWorkspace)
                 (int (length (concat cs))) of
            Inl e \<Rightarrow> Some (Inl e)
          | Inr True \<Rightarrow> Some (Inl (GraphQLError ''storage or blob size limit exceeded'' PAYLOAD_TOO_LARGE))
          | Inr False \<Rightarrow> Some (Inr (JString name))))"
  by (subst setBlob_upload) (simp split: sum.splits bool.splits)

lemma setBlob_upload_after:
  "after (setBlob sv w user ws (upload name cs)) =
     (case checkWorkspace sv ws user (Some Write) of
        Inl e \<Rightarrow> w
      | Inr _ \<Rightarrow>
         (case checkExceeded (getWorkspaceUsage sv ws) (hasWorkspaceFeature sv ws UnlimitedWorkspace)
                 (int (length (concat cs))) of
            Inl e \<Rightarrow> w
          | Inr True \<Rightarrow> w
          | Inr False \<Rightarrow> storage_put ws name (concat cs) w))"
  by (subst setBlob_upload) (simp split: sum.splits bool.splits)

subsection \<open>Quota and chunk boundaries\<close>

text \<open>
  C1, as stated, fails where the quota limit is 0: the workspace is not unlimited, one byte
  on top of 0 used bytes is more than the limit of 0, and \<^verbatim>\<open>setBlob\<close> throws
  \<^verbatim>\<open>cannot find user quota\<close> with status FORBIDDEN, not the size-limit error.
\<close>

theorem setBlob_quota_zero_not_exceeded:
  "\<not> hasWorkspaceFeature (fixed_services [Read, Write] (usage (Some 0) 0 100) False) ''ws'' UnlimitedWorkspace
   \<and> size' (usage (Some 0) 0 100) + int (length (concat [[1 :: 8 word]])) > 0
   \<and> result (setBlob (fixed_services [Read, Write] (usage (Some 0) 0 100) False) empty_world
        ''alice'' ''ws'' (upload ''a.png'' [[1]]))
     = Some (Inl (GraphQLError ''cannot find user quota'' FORBIDDEN))"
  by (simp add: setBlob_def fixed_services_def usage_def checkWorkspace_def checkExceeded_def)

text \<open>
  Where the numbers of the check on the whole payload are safe, so are those of the check
  after every chunk: the received sizes lie between 0 and the final size.
\<close>

lemma safe_usage_prefix:
  "safe_usage u q n \<Longrightarrow> 0 \<le> r \<Longrightarrow> r \<le> n \<Longrightarrow> safe_usage u q r"
  by (auto simp: safe_usage_def safe_integer_def)

text \<open>
  C1, amended: for a caller with write permission, a workspace without the unlimited
  feature, a quota limit that is present and not 0, and numbers that are safe integers
  (the limits, the used bytes, the final size and the used bytes plus the final size all
  below \<open>2 ^ 53\<close> in magnitude), an upload whose final size on top of the used bytes is
  more than the limit fails with the size-limit error (PAYLOAD_TOO_LARGE) and leaves the
  world as it was. For every snapshot and caller, two ways of splitting the same payload
  into chunks give the same result and the same world.
\<close>

theorem setBlob_exceeded_any_chunking:
  "(tryCheckWorkspace sv ws user Write \<and> quota (getWorkspaceUsage sv ws) = Some q \<and> q \<noteq> 0
      \<and> safe_usage (getWorkspaceUsage sv ws) q (int (length (concat cs)))
      \<and> \<not> hasWorkspaceFeature sv ws UnlimitedWorkspace
      \<and> size' (getWorkspaceUsage sv ws) + int (length (concat cs)) > q
    \<longrightarrow> result (setBlob sv w user ws (upload name cs))
          = Some (Inl (GraphQLError ''storage or blob size limit exceeded'' PAYLOAD_TOO_LARGE))
        \<and> after (setBlob sv w user ws (upload name cs)) = w)
   \<and> (concat cs = concat cs'
    \<longrightarrow> result (setBlob sv w user ws (upload name cs)) = result (setBlob sv w user ws (upload name cs'))
        \<and> after (setBlob sv w user ws (upload name cs)) = after (setBlob sv w user ws (upload name cs')))"
proof (intro conjI impI)
  assume h: "tryCheckWorkspace sv ws user Write \<and> quota (getWorkspaceUsage sv ws) = Some q \<and> q \<noteq> 0
      \<and> safe_usage (getWorkspaceUsage sv ws) q (int (length (concat cs)))
      \<and> \<not> hasWorkspaceFeature sv ws UnlimitedWorkspace
      \<and> size' (getWorkspaceUsage sv ws) + int (length (concat cs)) > q"
  then have ce: "checkExceeded (getWorkspaceUsage sv ws) (hasWorkspaceFeature sv ws UnlimitedWorkspace)
      (int (length (concat cs))) = Inr True"
    using checkExceeded_truthy [of "getWorkspaceUsage sv ws" q "hasWorkspaceFeature sv ws UnlimitedWorkspace"
        "int (length (concat cs))"]
    by simp
  have cw: "checkWorkspace sv ws user (Some Write) = Inr ()"
    using h by (simp add: checkWorkspace_def)
  show "result (setBlob sv w user ws (upload name cs))
          = Some (Inl (GraphQLError ''storage or blob size limit exceeded'' PAYLOAD_TOO_LARGE))"
    by (simp add: setBlob_upload_result ce cw)
  show "after (setBlob sv w user ws (upload name cs)) = w"
    by (simp add: setBlob_upload_after ce cw)
next
  assume e: "concat cs = concat cs'"
  show "result (setBlob sv w user ws (upload name cs)) = result (setBlob sv w user ws (upload name cs'))"
    unfolding setBlob_upload_result e by (rule refl)
next
  assume e: "concat cs = concat cs'"
  show "after (setBlob sv w user ws (upload name cs)) = after (setBlob sv w user ws (upload name cs'))"
    unfolding setBlob_upload_after e by (rule refl)
qed

theorem setBlob_exceeded_any_chunking_witness:
  "result (setBlob (fixed_services [Read, Write] (usage (Some 1000) 900 2000) False) empty_world
        ''alice'' ''ws'' (upload ''a.png'' [[1, 2, 3], replicate 100 7, [9]]))
     = Some (Inl (GraphQLError ''storage or blob size limit exceeded'' PAYLOAD_TOO_LARGE))
   \<and> result (setBlob (fixed_services [Read, Write] (usage (Some 1000) 900 2000) False) empty_world
        ''alice'' ''ws'' (upload ''a.png'' [[1, 2, 3], replicate 100 7, [9]]))
     = result (setBlob (fixed_services [Read, Write] (usage (Some 1000) 900 2000) False) empty_world
        ''alice'' ''ws'' (upload ''a.png'' [[1, 2, 3] @ replicate 100 7 @ [9]]))"
proof -
  let ?sv = "fixed_services [Read, Write] (usage (Some 1000) 900 2000) False"
  let ?cs = "[[1, 2, 3], replicate 100 7, [9 :: 8 word]]"
  let ?cs' = "[[1, 2, 3] @ replicate 100 7 @ [9 :: 8 word]]"
  have h1: "tryCheckWorkspace ?sv ''ws'' ''alice'' Write \<and> quota (getWorkspaceUsage ?sv ''ws'') = Some 1000
      \<and> (1000 :: int) \<noteq> 0
      \<and> safe_usage (getWorkspaceUsage ?sv ''ws'') 1000 (int (length (concat ?cs)))
      \<and> \<not> hasWorkspaceFeature ?sv ''ws'' UnlimitedWorkspace
      \<and> size' (getWorkspaceUsage ?sv ''ws'') + int (length (concat ?cs)) > 1000"
    by (simp add: fixed_services_def usage_def safe_usage_def safe_integer_def)
  have h2: "concat ?cs = concat ?cs'"
    by simp
  show ?thesis
    using setBlob_exceeded_any_chunking [of ?sv "''ws''" "''alice''" 1000 ?cs empty_world "''a.png''" ?cs']
      h1 h2
    by blast
qed

subsection \<open>The guard\<close>

text \<open>
  C2, as stated, fails where the quota limit is present and 0, at the check before the
  stream (received size 0): 5 bytes are used and the workspace is not unlimited, so the
  used bytes plus the received size are more than the limit, and \<^verbatim>\<open>checkExceeded\<close>
  does not return true, it throws \<^verbatim>\<open>cannot find user quota\<close>.
\<close>

theorem checkExceeded_zero_quota_not_true:
  "quota (usage (Some 0) 5 10) = Some 0
   \<and> (size' (usage (Some 0) 5 10) + 0 > 0 \<and> \<not> False)
   \<and> checkExceeded (usage (Some 0) 5 10) False 0 = Inl (GraphQLError ''cannot find user quota'' FORBIDDEN)
   \<and> checkExceeded (usage (Some 0) 5 10) False 0 \<noteq> Inr True"
  by (simp add: checkExceeded_def usage_def)

text \<open>
  C2, amended: for a quota limit that is present and not 0, and numbers that are safe
  integers (the limits, the used bytes, the received size and the used bytes plus the
  received size all below \<open>2 ^ 53\<close> in magnitude), \<^verbatim>\<open>checkExceeded\<close> returns true
  exactly when the used bytes plus the received size are more than the quota limit and the
  workspace is not unlimited, or else the received size is more than the per-blob limit; in
  particular it returns true for an unlimited workspace whose received size is above the
  per-blob limit. For a quota limit of 0 it throws \<^verbatim>\<open>cannot find user quota\<close> and
  returns nothing.
\<close>

theorem checkExceeded_correct:
  "(quota u = Some q \<and> q \<noteq> 0 \<and> safe_usage u q recvSize \<longrightarrow>
      checkExceeded u unlimited recvSize
        = Inr ((size' u + recvSize > q \<and> \<not> unlimited) \<or> recvSize > limit u)
      \<and> (unlimited \<and> recvSize > limit u \<longrightarrow> checkExceeded u unlimited recvSize = Inr True))
   \<and> (quota u = Some 0 \<longrightarrow>
      checkExceeded u unlimited recvSize = Inl (GraphQLError ''cannot find user quota'' FORBIDDEN))"
  by (auto simp: checkExceeded_def Let_def)

theorem checkExceeded_correct_witness:
  "checkExceeded (usage (Some 1000) 900 2000) True 2001 = Inr True
   \<and> checkExceeded (usage (Some 1000) 900 2000) False 100 = Inr False
   \<and> checkExceeded (usage (Some 1000) 900 2000) False 101 = Inr True
   \<and> checkExceeded (usage (Some 0) 900 2000) True 2001
       = Inl (GraphQLError ''cannot find user quota'' FORBIDDEN)"
proof -
  let ?u = "usage (Some 1000) 900 2000"
  have a: "quota ?u = Some 1000 \<and> (1000 :: int) \<noteq> 0 \<and> safe_usage ?u 1000 2001"
      "quota ?u = Some 1000 \<and> (1000 :: int) \<noteq> 0 \<and> safe_usage ?u 1000 100"
      "quota ?u = Some 1000 \<and> (1000 :: int) \<noteq> 0 \<and> safe_usage ?u 1000 101"
    by (simp_all add: usage_def safe_usage_def safe_integer_def)
  have b: "quota (usage (Some 0) 900 2000) = Some 0"
    by (simp add: usage_def)
  have c: "limit ?u = 2000" "size' ?u = 900"
    by (simp_all add: usage_def)
  show ?thesis
    using checkExceeded_correct [of ?u 1000 2001 True]
      checkExceeded_correct [of ?u 1000 100 False]
      checkExceeded_correct [of ?u 1000 101 False]
      checkExceeded_correct [of "usage (Some 0) 900 2000" 0 2001 True]
      a b c
    by simp
qed

subsection \<open>After the guard trips\<close>

text \<open>
  C3 at a concrete upload: the quota limit is 2, nothing is used, and the stream emits the
  chunks of 3, 1 and 2 bytes and ends. The guard trips at the first chunk and the promise
  is rejected there, yet the second and the third chunk are pushed to \<^verbatim>\<open>chunks\<close> as
  well: rejecting the promise does not stop the stream.
\<close>

theorem setBlob_keeps_buffering_after_reject:
  "listeners (setBlob (fixed_services [Read, Write] (usage (Some 2) 0 100) False) empty_world
        ''alice'' ''ws'' (upload ''a.png'' [[1, 2, 3], [4], [5, 6]]))
     = Some \<lparr>chunks = [[1, 2, 3], [4], [5, 6]],
             settled = Rejected (GraphQLError ''storage or blob size limit exceeded'' PAYLOAD_TOO_LARGE),
             escaped = []\<rparr>
   \<and> checkExceeded (usage (Some 2) 0 100) False (bufferSize [[1, 2, 3]]) = Inr True"
  by (simp add: setBlob_def fixed_services_def usage_def checkWorkspace_def checkExceeded_def
      upload_def on_data_def on_end_def bufferSize_def reject_def resolve_def Let_def)

text \<open>
  In general, once the stream was opened, every chunk it emits ends up in \<^verbatim>\<open>chunks\<close>,
  whether the promise was rejected in between or not.
\<close>

lemma setBlob_buffers_every_chunk:
  "listeners (setBlob sv w user ws blob) = Some st \<Longrightarrow> chunks st = data_chunks (createReadStream blob)"
  by (auto simp: setBlob_def Let_def run_stream_chunks split: sum.splits bool.splits promise.splits)

subsection \<open>A missing quota record\<close>

text \<open>
  C4: for a caller with write permission and a snapshot whose quota limit is absent,
  \<^verbatim>\<open>setBlob\<close> fails with \<^verbatim>\<open>cannot find user quota\<close> (FORBIDDEN), an error different
  from both size-limit errors, before the read stream is even created: no chunk is read,
  and the world is unchanged.
\<close>

theorem setBlob_missing_quota:
  assumes "tryCheckWorkspace sv ws user Write"
    and "quota (getWorkspaceUsage sv ws) = None"
  shows "setBlob sv w user ws blob =
           \<lparr>result = Some (Inl (GraphQLError ''cannot find user quota'' FORBIDDEN)),
            after = w, listeners = None\<rparr>
         \<and> GraphQLError ''cannot find user quota'' FORBIDDEN
             \<noteq> GraphQLError ''storage or blob size limit exceeded'' PAYLOAD_TOO_LARGE
         \<and> GraphQLError ''cannot find user quota'' FORBIDDEN
             \<noteq> GraphQLError ''storage limit exceeded'' PAYLOAD_TOO_LARGE"
  using assms by (simp add: setBlob_def checkWorkspace_def checkExceeded_def)

theorem setBlob_missing_quota_witness:
  "setBlob (fixed_services [Read, Write] (usage None 0 100) False) empty_world
        ''alice'' ''ws'' (upload ''a.png'' [[1, 2, 3], [4]])
     = \<lparr>result = Some (Inl (GraphQLError ''cannot find user quota'' FORBIDDEN)),
        after = empty_world, listeners = None\<rparr>"
proof -
  let ?sv = "fixed_services [Read, Write] (usage None 0 100) False"
  have a: "tryCheckWorkspace ?sv ''ws'' ''alice'' Write"
    by (simp add: fixed_services_def)
  have b: "quota (getWorkspaceUsage ?sv ''ws'') = None"
    by (simp add: fixed_services_def usage_def)
  show ?thesis
    using setBlob_missing_quota [OF a b, of empty_world "upload ''a.png'' [[1, 2, 3], [4]]"]
    by blast
qed

subsection \<open>Failure leaves no trace\<close>

lemma setBlob_after:
  "after (setBlob sv w user ws blob) =
     (case result (setBlob sv w user ws blob) of
        Some (Inr v) \<Rightarrow> after (setBlob sv w user ws blob)
      | _ \<Rightarrow> w)"
  by (auto simp: setBlob_def Let_def split: sum.splits bool.splits promise.splits)

text \<open>
  C5: whenever the mutation does not return a value (it throws on the permission check,
  the missing quota record, the size check before the stream, after a chunk or at the end
  of the stream, or on a stream error, or its promise never settles), the world after it is
  the world before it: no put reached the store and no cache invalidation was issued.
\<close>

theorem setBlob_failure_no_effect:
  assumes "\<forall>v. result (setBlob_mutation sv w user ws blob) \<noteq> Some (Inr v)"
  shows "after (setBlob_mutation sv w user ws blob) = w"
proof -
  have r: "result (setBlob_mutation sv w user ws blob) = result (setBlob sv w user ws blob)"
    by (simp add: setBlob_mutation_def Let_def)
  have "after (setBlob sv w user ws blob) = w"
    using assms r setBlob_after [of sv w user ws blob]
    by (auto split: option.splits sum.splits)
  then show ?thesis
    using assms r
    by (auto simp: setBlob_mutation_def Let_def PreventCache_def split: option.splits sum.splits)
qed

theorem setBlob_failure_no_effect_witness:
  "result (setBlob_mutation (fixed_services [Read, Write] (usage (Some 1000) 900 2000) False) empty_world
      ''alice'' ''ws'' \<lparr>filename = ''a.png'', createReadStream = [OnData [1, 2], OnError (StreamError ''reset'')]\<rparr>)
     = Some (Inl (StreamError ''reset''))
   \<and> after (setBlob_mutation (fixed_services [Read, Write] (usage (Some 1000) 900 2000) False) empty_world
      ''alice'' ''ws'' \<lparr>filename = ''a.png'', createReadStream = [OnData [1, 2], OnError (StreamError ''reset'')]\<rparr>)
     = empty_world"
proof -
  let ?out = "setBlob_mutation (fixed_services [Read, Write] (usage (Some 1000) 900 2000) False) empty_world
      ''alice'' ''ws'' \<lparr>filename = ''a.png'', createReadStream = [OnData [1, 2], OnError (StreamError ''reset'')]\<rparr>"
  have a: "result ?out = Some (Inl (StreamError ''reset''))"
    by (simp add: setBlob_mutation_def setBlob_def fixed_services_def usage_def checkWorkspace_def
        checkExceeded_def on_data_def bufferSize_def reject_def Let_def)
  then have b: "\<forall>v. result ?out \<noteq> Some (Inr v)"
    by simp
  show ?thesis
    using a setBlob_failure_no_effect [OF b] by simp
qed


subsection \<open>What setBlob returns\<close>

text \<open>
  C6, as stated, fails: a successful upload of 3 bytes under the name \<^verbatim>\<open>a.png\<close> returns
  the string \<^verbatim>\<open>a.png\<close>, not the number 3.
\<close>

theorem setBlob_returns_name_not_size:
  "result (setBlob (fixed_services [Read, Write] (usage (Some 1000) 900 2000) False) empty_world
        ''alice'' ''ws'' (upload ''a.png'' [[1, 2], [3]]))
     = Some (Inr (JString ''a.png''))
   \<and> storage (after (setBlob (fixed_services [Read, Write] (usage (Some 1000) 900 2000) False) empty_world
        ''alice'' ''ws'' (upload ''a.png'' [[1, 2], [3]])))
     = [((''ws'', ''a.png''), [1, 2, 3])]
   \<and> result (setBlob (fixed_services [Read, Write] (usage (Some 1000) 900 2000) False) empty_world
        ''alice'' ''ws'' (upload ''a.png'' [[1, 2], [3]]))
     \<noteq> Some (Inr (JNumber (int (length [1, 2, 3 :: 8 word]))))"
  by (simp add: setBlob_upload_result setBlob_upload_after fixed_services_def usage_def
      checkWorkspace_def checkExceeded_def storage_put_def empty_world_def)

text \<open>
  The promise is fulfilled by the first \<^verbatim>\<open>'end'\<close> only, with the concatenation of the
  chunks the stream has emitted until then.
\<close>

lemma run_stream_fulfilled:
  assumes "checkExceeded u unlimited 0 = Inr b0"
  shows "settled st = Pending \<Longrightarrow> settled (run_stream u unlimited evs st) = Fulfilled buffer \<Longrightarrow>
     buffer = concat (chunks st @ data_chunks (takeWhile (\<lambda>ev. ev \<noteq> OnEnd) evs))"
proof (induction evs arbitrary: st)
  case Nil
  then show ?case by simp
next
  case (Cons ev evs)
  show ?case
  proof (cases ev)
    case (OnData c)
    obtain b where b: "checkExceeded u unlimited (bufferSize (chunks st @ [c])) = Inr b"
      using checkExceeded_returns_any [OF assms] by blast
    let ?st1 = "on_data u unlimited c st"
    have ch: "chunks ?st1 = chunks st @ [c]"
      using b by (simp add: on_data_def Let_def split: bool.splits)
    show ?thesis
    proof (cases b)
      case True
      have "settled ?st1 = Rejected (GraphQLError ''storage or blob size limit exceeded'' PAYLOAD_TOO_LARGE)"
        using b True Cons.prems(1) by (simp add: on_data_def Let_def reject_def)
      then have "settled (run_stream u unlimited evs ?st1)
                   = Rejected (GraphQLError ''storage or blob size limit exceeded'' PAYLOAD_TOO_LARGE)"
        using run_stream_settled [of ?st1 u unlimited evs] by simp
      then show ?thesis using Cons.prems(2) OnData by simp
    next
      case False
      have "settled ?st1 = Pending"
        using b False Cons.prems(1) by (simp add: on_data_def Let_def)
      then show ?thesis
        using Cons.IH [of ?st1] Cons.prems(2) OnData ch by simp
    qed
  next
    case (OnError e)
    have "settled (dispatch u unlimited ev st) = Rejected e"
      using OnError Cons.prems(1) by (simp add: reject_def)
    then have "settled (run_stream u unlimited evs (dispatch u unlimited ev st)) = Rejected e"
      using run_stream_settled [of "dispatch u unlimited ev st" u unlimited evs] by simp
    then show ?thesis using Cons.prems(2) by simp
  next
    case OnEnd
    obtain b where b: "checkExceeded u unlimited (int (length (concat (chunks st)))) = Inr b"
      using checkExceeded_returns_any [OF assms] by blast
    let ?st1 = "on_end u unlimited st"
    show ?thesis
    proof (cases b)
      case True
      have "settled ?st1 = Rejected (GraphQLError ''storage limit exceeded'' PAYLOAD_TOO_LARGE)"
        using b True Cons.prems(1) by (simp add: on_end_def Let_def reject_def)
      then have "settled (run_stream u unlimited evs ?st1)
                   = Rejected (GraphQLError ''storage limit exceeded'' PAYLOAD_TOO_LARGE)"
        using run_stream_settled [of ?st1 u unlimited evs] by simp
      then show ?thesis using Cons.prems(2) OnEnd by simp
    next
      case False
      have "settled ?st1 = Fulfilled (concat (chunks st))"
        using b False Cons.prems(1) by (simp add: on_end_def Let_def resolve_def)
      then have "settled (run_stream u unlimited evs ?st1) = Fulfilled (concat (chunks st))"
        using run_stream_settled [of ?st1 u unlimited evs] by simp
      then show ?thesis using Cons.prems(2) OnEnd by simp
    qed
  qed
qed

lemma setBlob_fulfilled:
  assumes "result (setBlob sv w user ws blob) = Some (Inr v)"
  shows "\<exists>st. listeners (setBlob sv w user ws blob) = Some st
           \<and> settled st = Fulfilled (concat (data_chunks (takeWhile (\<lambda>ev. ev \<noteq> OnEnd) (createReadStream blob))))
           \<and> after (setBlob sv w user ws blob)
               = storage_put ws (filename blob)
                   (concat (data_chunks (takeWhile (\<lambda>ev. ev \<noteq> OnEnd) (createReadStream blob)))) w"
proof -
  let ?u = "getWorkspaceUsage sv ws"
  let ?un = "hasWorkspaceFeature sv ws UnlimitedWorkspace"
  let ?st = "run_stream ?u ?un (createReadStream blob) \<lparr>chunks = [], settled = Pending, escaped = []\<rparr>"
  from assms have pre: "checkExceeded ?u ?un 0 = Inr False"
    by (auto simp: setBlob_def Let_def split: sum.splits bool.splits promise.splits)
  from assms obtain buffer where f: "settled ?st = Fulfilled buffer"
    by (auto simp: setBlob_def Let_def split: sum.splits bool.splits promise.splits)
  have "buffer = concat (data_chunks (takeWhile (\<lambda>ev. ev \<noteq> OnEnd) (createReadStream blob)))"
    using run_stream_fulfilled [OF pre, of "\<lparr>chunks = [], settled = Pending, escaped = []\<rparr>"
        "createReadStream blob" buffer] f
    by simp
  then show ?thesis
    using assms pre f
    by (auto simp: setBlob_def Let_def split: sum.splits bool.splits promise.splits)
qed

text \<open>
  C6, amended: on full success \<^verbatim>\<open>setBlob\<close> returns the file name of the upload, and
  the assembled buffer, the concatenation of the chunks received before the end of the
  stream, is what the promise was fulfilled with and what was put into the store under
  that name.
\<close>

theorem setBlob_returns_filename:
  assumes "result (setBlob sv w user ws blob) = Some (Inr v)"
  shows "v = JString (filename blob)
         \<and> after (setBlob sv w user ws blob)
             = storage_put ws (filename blob)
                 (concat (data_chunks (takeWhile (\<lambda>ev. ev \<noteq> OnEnd) (createReadStream blob)))) w
         \<and> map_of (storage (after (setBlob sv w user ws blob))) (ws, filename blob)
             = Some (concat (data_chunks (takeWhile (\<lambda>ev. ev \<noteq> OnEnd) (createReadStream blob))))
         \<and> (\<exists>st. listeners (setBlob sv w user ws blob) = Some st
              \<and> settled st = Fulfilled (concat (data_chunks (takeWhile (\<lambda>ev. ev \<noteq> OnEnd) (createReadStream blob)))))"
proof -
  have v: "v = JString (filename blob)"
    using assms
    by (auto simp: setBlob_def Let_def split: sum.splits bool.splits promise.splits)
  show ?thesis
    using v setBlob_fulfilled [OF assms] by (auto simp: storage_put_def)
qed

theorem setBlob_returns_filename_witness:
  "result (setBlob (fixed_services [Read, Write] (usage (Some 1000) 900 2000) False)
          empty_world ''alice'' ''ws'' (upload ''a.png'' [[1, 2], [3]]))
     = Some (Inr (JString ''a.png''))
   \<and> map_of (storage (after (setBlob (fixed_services [Read, Write] (usage (Some 1000) 900 2000) False)
          empty_world ''alice'' ''ws'' (upload ''a.png'' [[1, 2], [3]])))) (''ws'', ''a.png'')
     = Some [1, 2, 3]"
proof -
  let ?sv = "fixed_services [Read, Write] (usage (Some 1000) 900 2000) False"
  have a: "result (setBlob ?sv empty_world ''alice'' ''ws'' (upload ''a.png'' [[1, 2], [3]]))
             = Some (Inr (JString ''a.png''))"
    by (simp add: setBlob_upload_result fixed_services_def usage_def checkWorkspace_def checkExceeded_def)
  have f: "filename (upload ''a.png'' [[1, 2], [3]]) = ''a.png''"
      "concat (data_chunks (takeWhile (\<lambda>ev. ev \<noteq> OnEnd) (createReadStream (upload ''a.png'' [[1, 2], [3]]))))
         = [1, 2, 3]"
    by (simp_all add: upload_def)
  show ?thesis
    using setBlob_returns_filename [OF a, unfolded f] a by blast
qed

subsection \<open>Permission checks of list, size and delete\<close>

text \<open>
  C7 at a concrete call: the permission service grants the caller nothing on the workspace,
  so \<^verbatim>\<open>checkWorkspace\<close> would throw, and \<^verbatim>\<open>blobsSize\<close> still calls
  \<^verbatim>\<open>storage.totalSize\<close> and returns the 3 bytes stored there: it never asks the
  permission service.
\<close>

theorem blobsSize_without_permission:
  "checkWorkspace (fixed_services [] (usage (Some 1000) 3 2000) False) ''ws'' ''mallory'' None
     = Inl ForbiddenException
   \<and> blobsSize (fixed_services [] (usage (Some 1000) 3 2000) False)
        \<lparr>storage = [((''ws'', ''a.png''), [1, 2, 3])], trace = [], invalidated = []\<rparr> ''ws''
     = (Inr (JNumber 3),
        \<lparr>storage = [((''ws'', ''a.png''), [1, 2, 3])], trace = [OpTotalSize ''ws''], invalidated = []\<rparr>)"
  by (simp add: checkWorkspace_def fixed_services_def blobsSize_def storage_totalSize_def)

text \<open>The two siblings do ask: without the read level they throw before reaching the store.\<close>

lemma blobs_forbidden:
  "\<not> tryCheckWorkspace sv ws user Read \<Longrightarrow> blobs sv w user ws = (Inl ForbiddenException, w)"
  by (simp add: blobs_def checkWorkspace_def)

lemma deleteBlob_forbidden:
  "\<not> tryCheckWorkspace sv ws user Read \<Longrightarrow>
   deleteBlob_mutation sv w user ws name = (Inl ForbiddenException, w)"
  by (simp add: deleteBlob_mutation_def deleteBlob_def checkWorkspace_def PreventCache_def)

subsection \<open>Re-summing against a running counter\<close>

lemma dispatch_counter_eq:
  "dispatch_counter u unlimited ev (bufferSize (chunks st), st)
     = (bufferSize (chunks (dispatch u unlimited ev st)), dispatch u unlimited ev st)"
  by (cases ev)
     (auto simp: on_data_counter_def on_data_def on_end_counter_def on_end_def Let_def
        bufferSize_snoc bufferSize_concat split: sum.splits bool.splits)

lemma run_stream_counter_eq:
  "run_stream_counter u unlimited evs (bufferSize (chunks st), st)
     = (bufferSize (chunks (run_stream u unlimited evs st)), run_stream u unlimited evs st)"
  by (induction evs arbitrary: st) (simp_all add: dispatch_counter_eq)

text \<open>
  C8: for every sequence of stream events, the running counter holds what re-summing the
  lengths of all buffered chunks gives, the listeners end in the same state, and
  \<^verbatim>\<open>setBlob\<close> built on the running counter has the same outcome as \<^verbatim>\<open>setBlob\<close> built
  on re-summing.
\<close>

theorem running_counter_equivalent:
  "fst (run_stream_counter u unlimited evs (0, \<lparr>chunks = [], settled = Pending, escaped = []\<rparr>))
     = bufferSize (chunks (run_stream u unlimited evs \<lparr>chunks = [], settled = Pending, escaped = []\<rparr>))
   \<and> snd (run_stream_counter u unlimited evs (0, \<lparr>chunks = [], settled = Pending, escaped = []\<rparr>))
     = run_stream u unlimited evs \<lparr>chunks = [], settled = Pending, escaped = []\<rparr>
   \<and> setBlob_counter sv w user ws blob = setBlob sv w user ws blob"
proof -
  let ?st0 = "\<lparr>chunks = [], settled = Pending, escaped = []\<rparr>"
  have z: "bufferSize (chunks ?st0) = 0"
    by (simp add: bufferSize_def)
  have e: "run_stream_counter u' un' evs' (0, ?st0)
             = (bufferSize (chunks (run_stream u' un' evs' ?st0)), run_stream u' un' evs' ?st0)"
    for u' un' evs'
    using run_stream_counter_eq [of u' un' evs' ?st0] z by simp
  have s: "snd (run_stream_counter u' un' evs' (0, ?st0)) = run_stream u' un' evs' ?st0"
    for u' un' evs'
    by (simp add: e)
  have "setBlob_counter sv w user ws blob = setBlob sv w user ws blob"
    unfolding setBlob_counter_def setBlob_def s by (rule refl)
  then show ?thesis
    by (simp add: e)
qed

subsection \<open>A quota limit of zero\<close>

text \<open>
  C9: for a caller with write permission and a quota record whose limit is exactly 0,
  \<^verbatim>\<open>setBlob\<close> fails with \<^verbatim>\<open>cannot find user quota\<close> (FORBIDDEN) and never with a
  PAYLOAD_TOO_LARGE error, whatever is uploaded.
\<close>

theorem setBlob_zero_quota:
  assumes "tryCheckWorkspace sv ws user Write"
    and "quota (getWorkspaceUsage sv ws) = Some 0"
  shows "setBlob sv w user ws blob =
           \<lparr>result = Some (Inl (GraphQLError ''cannot find user quota'' FORBIDDEN)),
            after = w, listeners = None\<rparr>
         \<and> (\<forall>msg. result (setBlob sv w user ws blob) \<noteq> Some (Inl (GraphQLError msg PAYLOAD_TOO_LARGE)))"
  using assms by (simp add: setBlob_def checkWorkspace_def checkExceeded_def)

theorem setBlob_zero_quota_witness:
  "setBlob (fixed_services [Read, Write] (usage (Some 0) 0 100) False) empty_world
        ''alice'' ''ws'' (upload ''a.png'' [[1, 2, 3], [4]])
     = \<lparr>result = Some (Inl (GraphQLError ''cannot find user quota'' FORBIDDEN)),
        after = empty_world, listeners = None\<rparr>"
proof -
  let ?sv = "fixed_services [Read, Write] (usage (Some 0) 0 100) False"
  have a: "tryCheckWorkspace ?sv ''ws'' ''alice'' Write"
    by (simp add: fixed_services_def)
  have b: "quota (getWorkspaceUsage ?sv ''ws'') = Some 0"
    by (simp add: fixed_services_def usage_def)
  show ?thesis
    using setBlob_zero_quota [OF a b, of empty_world "upload ''a.png'' [[1, 2, 3], [4]]"]
    by blast
qed

subsection \<open>The permission levels of deleteBlob and setBlob\<close>

lemma map_of_filter_key: "map_of (filter (\<lambda>(k, v). k \<noteq> key) xs) key = None"
  by (induction xs) auto

text \<open>
  C10: \<^verbatim>\<open>deleteBlob\<close> asks for the default level, the read level: for a caller who can
  read the workspace it returns true and the blob is gone from the store, and for one who
  cannot it throws. \<^verbatim>\<open>setBlob\<close> asks for the write level: without it the call throws
  before anything is read or stored.
\<close>

theorem deleteBlob_read_setBlob_write:
  "(tryCheckWorkspace sv ws user Read \<longrightarrow>
      deleteBlob sv w user ws name = (Inr (JBool True), storage_delete ws name w)
      \<and> map_of (storage (snd (deleteBlob sv w user ws name))) (ws, name) = None)
   \<and> (\<not> tryCheckWorkspace sv ws user Read \<longrightarrow>
      deleteBlob sv w user ws name = (Inl ForbiddenException, w))
   \<and> (\<not> tryCheckWorkspace sv ws user Write \<longrightarrow>
      setBlob sv w user ws blob = \<lparr>result = Some (Inl ForbiddenException), after = w, listeners = None\<rparr>)"
  by (simp add: deleteBlob_def setBlob_def checkWorkspace_def storage_delete_def map_of_filter_key)

theorem deleteBlob_read_setBlob_write_witness:
  "deleteBlob (fixed_services [Read] (usage (Some 1000) 3 2000) False)
        \<lparr>storage = [((''ws'', ''a.png''), [1, 2, 3])], trace = [], invalidated = []\<rparr>
        ''bob'' ''ws'' ''a.png''
     = (Inr (JBool True), \<lparr>storage = [], trace = [OpDelete ''ws'' ''a.png''], invalidated = []\<rparr>)
   \<and> setBlob (fixed_services [Read] (usage (Some 1000) 3 2000) False)
        \<lparr>storage = [((''ws'', ''a.png''), [1, 2, 3])], trace = [], invalidated = []\<rparr>
        ''bob'' ''ws'' (upload ''b.png'' [[4]])
     = \<lparr>result = Some (Inl ForbiddenException),
        after = \<lparr>storage = [((''ws'', ''a.png''), [1, 2, 3])], trace = [], invalidated = []\<rparr>,
        listeners = None\<rparr>"
proof -
  let ?sv = "fixed_services [Read] (usage (Some 1000) 3 2000) False"
  let ?w = "\<lparr>storage = [((''ws'', ''a.png''), [1, 2, 3 :: 8 word])], trace = [], invalidated = []\<rparr>"
  have a: "tryCheckWorkspace ?sv ''ws'' ''bob'' Read"
    by (simp add: fixed_services_def)
  have b: "\<not> tryCheckWorkspace ?sv ''ws'' ''bob'' Write"
    by (simp add: fixed_services_def)
  have c: "storage_delete ''ws'' ''a.png'' ?w
             = \<lparr>storage = [], trace = [OpDelete ''ws'' ''a.png''], invalidated = []\<rparr>"
    by (simp add: storage_delete_def)
  show ?thesis
    using deleteBlob_read_setBlob_write [of ?sv "''ws''" "''bob''" ?w "''a.png''" "upload ''b.png'' [[4]]"]
      a b c
    by simp
qed


subsection \<open>Further checks of the model\<close>

text \<open>
  A listener of \<^verbatim>\<open>setBlob\<close> never throws: the check before the stream has thrown
  already where \<^verbatim>\<open>checkExceeded\<close> can throw.
\<close>

lemma dispatch_escaped:
  "checkExceeded u unlimited 0 = Inr b \<Longrightarrow> escaped (dispatch u unlimited ev st) = escaped st"
proof (cases ev)
  case (OnData c)
  obtain b' where "checkExceeded u unlimited (bufferSize (chunks st @ [c])) = Inr b'"
    if "checkExceeded u unlimited 0 = Inr b"
    using checkExceeded_returns_any [of u unlimited 0 b "bufferSize (chunks st @ [c])"] that by blast
  then show "checkExceeded u unlimited 0 = Inr b \<Longrightarrow> ?thesis"
    using OnData by (auto simp: on_data_def Let_def split: bool.splits)
next
  case (OnError e)
  then show ?thesis by simp
next
  case OnEnd
  obtain b' where "checkExceeded u unlimited (int (length (concat (chunks st)))) = Inr b'"
    if "checkExceeded u unlimited 0 = Inr b"
    using checkExceeded_returns_any [of u unlimited 0 b "int (length (concat (chunks st)))"] that by blast
  then show "checkExceeded u unlimited 0 = Inr b \<Longrightarrow> ?thesis"
    using OnEnd by (auto simp: on_end_def Let_def split: bool.splits)
qed

lemma run_stream_escaped:
  "checkExceeded u unlimited 0 = Inr b \<Longrightarrow> escaped (run_stream u unlimited evs st) = escaped st"
  by (induction evs arbitrary: st) (simp_all add: dispatch_escaped)

lemma setBlob_no_escape:
  "listeners (setBlob sv w user ws blob) = Some st \<Longrightarrow> escaped st = []"
  by (auto simp: setBlob_def Let_def run_stream_escaped split: sum.splits bool.splits promise.splits)

text \<open>
  The scenario of the specification: 900 bytes used of 1000, a per-blob limit of 2000, and
  an upload of 50 bytes in chunks of 20, 20 and 10.
\<close>

lemma setBlob_scenario:
  "setBlob_mutation (fixed_services [Read, Write] (usage (Some 1000) 900 2000) False) empty_world
      ''alice'' ''ws'' (upload ''a.png'' [replicate 20 1, replicate 20 2, replicate 10 3])
   = \<lparr>result = Some (Inr (JString ''a.png'')),
      after = \<lparr>storage = [((''ws'', ''a.png''), replicate 20 1 @ replicate 20 2 @ replicate 10 3)],
               trace = [OpPut ''ws'' ''a.png''],
               invalidated = [([''blobs''], ''ws'')]\<rparr>,
      listeners = Some \<lparr>chunks = [replicate 20 1, replicate 20 2, replicate 10 3],
                        settled = Fulfilled (replicate 20 1 @ replicate 20 2 @ replicate 10 3),
                        escaped = []\<rparr>\<rparr>"
  by (simp add: setBlob_mutation_def setBlob_def fixed_services_def usage_def checkWorkspace_def
      checkExceeded_def upload_def on_data_def on_end_def bufferSize_def reject_def resolve_def
      Let_def storage_put_def empty_world_def PreventCache_def)

end
